theory Spec2Isabelle
  imports Complex_Main
begin

section \<open>The cast video player: data model\<close>

text \<open>
  The controller is the single object \<open>CastPlayer\<close> of the script. Its fields, the part
  of the browser it acts on (the table of live intervals, the queue of pending timeouts,
  the inline style of the progress bar) and the trace of calls made into the cast SDK are
  gathered in one record, \<open>world\<close>; every method takes the world and returns the new one.

  Numbers are exact rationals. A quotient whose divisor is zero and an arithmetic
  expression with an \<open>undefined\<close> operand are not finite numbers in the script (NaN or
  an infinity); they are \<open>None\<close> here. \<open>parseInt\<close> applied to a number is truncation
  towards zero. Rounding of doubles is not modelled.

  Writes to the page that only present the state (visibility and opacity of the
  controls, the title, subtitle and duration texts, the height of the volume bar) and
  console output are left out; the width of \<open>#progress\<close> and the left margin of
  \<open>#progress_indicator\<close> are kept, as the texts the script assigns to them.
\<close>

definition PROGRESS_BAR_WIDTH :: int where
  "PROGRESS_BAR_WIDTH = 600"

definition MAX_ATTEMPT_COUNT :: nat where
  "MAX_ATTEMPT_COUNT = 5"

datatype DEVICE_STATE = D_IDLE | D_ACTIVE | D_WARNING | D_ERROR

text \<open>
  The values of \<open>PLAYER_STATE\<close> are strings; \<open>castPlayerState\<close> may also receive a
  state name reported by the receiver that is not in the table (\<open>OTHER\<close>).
\<close>

datatype PLAYER_STATE =
  IDLE | LOADING | LOADED | PLAYING | PAUSED | STOPPED | SEEKING | ERROR | OTHER string

definition player_state_of :: "string \<Rightarrow> PLAYER_STATE" where
  "player_state_of s =
     (if s = ''IDLE'' then IDLE
      else if s = ''LOADING'' then LOADING
      else if s = ''LOADED'' then LOADED
      else if s = ''PLAYING'' then PLAYING
      else if s = ''PAUSED'' then PAUSED
      else if s = ''STOPPED'' then STOPPED
      else if s = ''SEEKING'' then SEEKING
      else if s = ''ERROR'' then ERROR
      else OTHER s)"

text \<open>A \<open>chrome.cast.media.Media\<close> object and a \<open>chrome.cast.Session\<close> object.\<close>

record Media =
  mediaSessionId :: nat
  media_sessionId :: string
  media_duration :: rat
  media_playerState :: string
  media_currentTime :: rat

record Session =
  sessionId :: string
  media :: "Media list"

text \<open>The descriptor \<open>mediaContent\<close> written by the source search functions.\<close>

record MediaContent =
  title :: "string option"
  source :: string
  thumb :: "string option"
  subtitle :: string

text \<open>
  The argument of the media status listener: a boolean, or an object of which the script
  reads \<open>idleReason\<close>, \<open>playerState\<close> and \<open>currentTime\<close> (each possibly undefined).
\<close>

datatype status =
  Alive bool
| Status "string option" "string option" "rat option"

fun idleReason :: "status \<Rightarrow> string option" where
  "idleReason (Alive b) = None"
| "idleReason (Status r p c) = r"

fun playerState :: "status \<Rightarrow> string option" where
  "playerState (Alive b) = None"
| "playerState (Status r p c) = p"

fun currentTime :: "status \<Rightarrow> rat option" where
  "currentTime (Alive b) = None"
| "currentTime (Status r p c) = c"

text \<open>\<open>e == false\<close>: true of the boolean false only, never of an object.\<close>

fun eq_false :: "status \<Rightarrow> bool" where
  "eq_false (Alive b) = (\<not> b)"
| "eq_false (Status r p c) = False"

text \<open>The pointer event read by the seek and volume handlers.\<close>

record mouse_event =
  currentTarget_id :: string
  offsetX :: rat
  offsetY :: rat

text \<open>
  The text assigned to a style property: \<open>Px n\<close> is the number \<open>n\<close> followed by
  \<open>px\<close>, \<open>Bare n\<close> the number alone, \<open>NotALength\<close> a text such as \<open>NaNpx\<close>,
  \<open>Infinitypx\<close> or \<open>undefinedpx\<close>, \<open>Empty\<close> the empty text of a property never
  assigned.
\<close>

datatype css = Px int | Bare int | NotALength | Empty

text \<open>\<open>parseInt\<close> of a style text; \<open>None\<close> is NaN.\<close>

fun parseInt_css :: "css \<Rightarrow> int option" where
  "parseInt_css (Px n) = Some n"
| "parseInt_css (Bare n) = Some n"
| "parseInt_css NotALength = None"
| "parseInt_css Empty = None"

text \<open>\<open>parseInt\<close> of a number: truncation towards zero.\<close>

definition parseInt :: "rat \<Rightarrow> int" where
  "parseInt q = (if 0 \<le> q then \<lfloor>q\<rfloor> else \<lceil>q\<rceil>)"

text \<open>A number, or NaN, followed by \<open>px\<close>.\<close>

fun px :: "int option \<Rightarrow> css" where
  "px (Some n) = Px n"
| "px None = NotALength"

text \<open>The calls the script makes into the cast SDK, in the order made.\<close>

datatype sdk_call =
  Initialize
| RequestSession
| SessionStop
| SessionLoadMedia string bool
| MediaPlay
| MediaPause
| MediaStop
| MediaSeek rat
| SetReceiverVolumeLevel rat
| SetReceiverMuted bool
| AddUpdateListener

text \<open>
  The page as the source search functions see it. \<open>jwplayer\<close> is \<open>None\<close> while the
  global is undefined; \<open>getPlaylist\<close> is \<open>None\<close> when the player has no such method,
  \<open>Some None\<close> when the method returns undefined. \<open>page_header\<close> is what
  \<open>grepTitleFromStreamCloudPage\<close> reads from the page, \<open>stream_flash\<close> the texts of
  the script elements inside \<open>#stream_flash\<close> (\<open>None\<close> without such an element), and
  \<open>regexp_exec\<close> the two groups the regular expression finds in a script text.
\<close>

record playlist_item =
  item_title :: "string option"
  item_file :: string
  item_image :: "string option"

record jw =
  getPlaylist :: "playlist_item list option option"

record page =
  cast_available :: bool
  jwplayer :: "jw option"
  host :: string
  page_header :: "string option"
  stream_flash :: "string list option"
  regexp_exec :: "string \<Rightarrow> (string \<times> string) option"

text \<open>The callbacks handed to \<open>setTimeout\<close>; every delay is 1000 ms, so they run in order.\<close>

datatype task =
  T_initializeCastPlayer
| T_setProgressFlag
| T_findCloudPlayerSource nat

record world =
  deviceState :: DEVICE_STATE
  currentMediaSession :: "Media option"
  currentVolume :: rat
  autoplay :: bool
  session :: "Session option"
  castPlayerState :: PLAYER_STATE
  audio :: bool
  mediaContent :: "MediaContent option"
  currentMediaTime :: rat
  currentMediaDuration :: rat
  timer :: "nat option"
  progressFlag :: bool
  timerStep :: nat
  intervals :: "nat set"
  nextId :: nat
  timeouts :: "task list"
  calls :: "sdk_call list"
  progress_width :: css
  indicator_marginLeft :: css

text \<open>
  A method either returns or throws; a throw leaves the assignments made before it.
\<close>

datatype error = TypeError

type_synonym result = "(error \<times> world) + world"

fun settle :: "result \<Rightarrow> world" where
  "settle (Inl (e, w)) = w"
| "settle (Inr w) = w"

section \<open>Timers\<close>

text \<open>\<open>setInterval\<close> hands out a fresh identifier; \<open>clearInterval\<close> ignores null.\<close>

definition setInterval :: "world \<Rightarrow> world" where
  "setInterval w =
     w\<lparr>timer := Some (nextId w),
       intervals := insert (nextId w) (intervals w),
       nextId := Suc (nextId w)\<rparr>"

definition clearInterval :: "nat option \<Rightarrow> world \<Rightarrow> world" where
  "clearInterval t w =
     (case t of None \<Rightarrow> w | Some i \<Rightarrow> w\<lparr>intervals := intervals w - {i}\<rparr>)"

definition setTimeout :: "task \<Rightarrow> world \<Rightarrow> world" where
  "setTimeout t w = w\<lparr>timeouts := timeouts w @ [t]\<rparr>"

definition sdk :: "sdk_call \<Rightarrow> world \<Rightarrow> world" where
  "sdk c w = w\<lparr>calls := calls w @ [c]\<rparr>"

text \<open>\<open>if (this.timer)\<close>: a handle is truthy unless it is null or 0.\<close>

fun truthy :: "nat option \<Rightarrow> bool" where
  "truthy None = False"
| "truthy (Some i) = (i \<noteq> 0)"

definition startProgressTimer :: "world \<Rightarrow> world" where
  "startProgressTimer w =
     setInterval
       (if truthy (timer w) then (clearInterval (timer w) w)\<lparr>timer := None\<rparr> else w)"

section \<open>Session controller\<close>

definition resetProgressAndDuration :: "world \<Rightarrow> world" where
  "resetProgressAndDuration w =
     w\<lparr>currentMediaTime := 0,
       currentMediaDuration := 0,
       progress_width := Bare 0,
       indicator_marginLeft := Px (- 21 - PROGRESS_BAR_WIDTH)\<rparr>"

definition launchApp :: "world \<Rightarrow> world" where
  "launchApp w =
     (let w1 = sdk RequestSession w
      in if truthy (timer w1) then clearInterval (timer w1) w1 else w1)"

definition loadMedia :: "world \<Rightarrow> result" where
  "loadMedia w =
     (case session w of
        None \<Rightarrow> Inr w
      | Some s \<Rightarrow>
          (case mediaContent w of
             None \<Rightarrow> Inl (TypeError, w)
           | Some mc \<Rightarrow>
               Inr (sdk (SessionLoadMedia (source mc) (autoplay w))
                      (w\<lparr>castPlayerState := LOADING\<rparr>))))"

definition onRequestSessionSuccess :: "Session \<Rightarrow> world \<Rightarrow> result" where
  "onRequestSessionSuccess e w =
     loadMedia (w\<lparr>session := Some e, deviceState := D_ACTIVE\<rparr>)"

definition onLaunchError :: "world \<Rightarrow> world" where
  "onLaunchError w = w\<lparr>deviceState := D_ERROR\<rparr>"

definition stopApp :: "world \<Rightarrow> result" where
  "stopApp w =
     (case session w of
        None \<Rightarrow> Inl (TypeError, w)
      | Some s \<Rightarrow> Inr (sdk SessionStop w))"

definition onStopAppSuccess :: "world \<Rightarrow> world" where
  "onStopAppSuccess w =
     resetProgressAndDuration
       (clearInterval (timer w)
          (w\<lparr>deviceState := D_IDLE,
             castPlayerState := IDLE,
             currentMediaSession := None\<rparr>))"

text \<open>The first argument of \<open>onMediaDiscovered\<close>.\<close>

datatype how = H_loadMedia | H_activeSession

definition onMediaDiscovered :: "how \<Rightarrow> Media \<Rightarrow> world \<Rightarrow> result" where
  "onMediaDiscovered h mediaSession w =
     (let w1 = w\<lparr>currentMediaSession := Some mediaSession\<rparr>;
          w2 = (if h = H_loadMedia
                then (if autoplay w1 then w1\<lparr>castPlayerState := PLAYING\<rparr>
                      else w1\<lparr>castPlayerState := LOADED\<rparr>)
                else w1);
          r3 = (if h = H_activeSession
                then (case session w2 of
                        None \<Rightarrow> Inl (TypeError, w2)
                      | Some s \<Rightarrow>
                          (case media s of
                             [] \<Rightarrow> Inl (TypeError, w2)
                           | m0 # ms \<Rightarrow>
                               Inr (w2\<lparr>castPlayerState := player_state_of (media_playerState m0),
                                       currentMediaTime := media_currentTime m0\<rparr>)))
                else Inr w2)
      in case r3 of
           Inl x \<Rightarrow> Inl x
         | Inr w3 \<Rightarrow>
             (let w4 = (if castPlayerState w3 = PLAYING then startProgressTimer w3 else w3);
                  w5 = sdk AddUpdateListener w4
              in Inr (w5\<lparr>currentMediaDuration := media_duration mediaSession\<rparr>)))"

definition sessionListener :: "Session option \<Rightarrow> world \<Rightarrow> result" where
  "sessionListener e w =
     (let w1 = w\<lparr>session := e\<rparr>
      in case e of
           None \<Rightarrow> Inr w1
         | Some s \<Rightarrow>
             (let w2 = w1\<lparr>deviceState := D_ACTIVE\<rparr>
              in case media s of
                   [] \<Rightarrow> Inr w2
                 | m0 # ms \<Rightarrow> onMediaDiscovered H_activeSession m0 w2))"

definition onLoadMediaError :: "world \<Rightarrow> world" where
  "onLoadMediaError w = w\<lparr>castPlayerState := IDLE\<rparr>"

section \<open>Progress synchronizer\<close>

text \<open>\<open>PROGRESS_BAR_WIDTH * t / d\<close>; \<open>None\<close> when the result is not a finite number.\<close>

definition scaled :: "rat option \<Rightarrow> rat \<Rightarrow> rat option" where
  "scaled t d =
     (case t of
        None \<Rightarrow> None
      | Some c \<Rightarrow> if d = 0 then None else Some (of_int PROGRESS_BAR_WIDTH * c / d))"

definition updateProgressBar :: "status \<Rightarrow> world \<Rightarrow> result" where
  "updateProgressBar e w =
     (if idleReason e = Some ''FINISHED'' \<and> playerState e = Some ''IDLE''
      then Inr ((clearInterval (timer w)
                   (w\<lparr>progress_width := Px 0,
                      indicator_marginLeft := Px (- 21 - PROGRESS_BAR_WIDTH)\<rparr>))
                \<lparr>castPlayerState := STOPPED\<rparr>)
      else (case currentMediaSession w of
              None \<Rightarrow> Inl (TypeError, w)
            | Some m \<Rightarrow>
                (let r = scaled (currentTime e) (media_duration m);
                     w1 = w\<lparr>progress_width := px (map_option (\<lambda>x. \<lceil>x + 1\<rceil>) r),
                            progressFlag := False\<rparr>;
                     w2 = setTimeout T_setProgressFlag w1;
                     pp = map_option (\<lambda>x. \<lceil>x\<rceil>) r
                 in Inr (w2\<lparr>indicator_marginLeft :=
                              px (map_option (\<lambda>n. - 21 - PROGRESS_BAR_WIDTH + n) pp)\<rparr>))))"

definition onMediaStatusUpdate :: "status \<Rightarrow> world \<Rightarrow> result" where
  "onMediaStatusUpdate e w =
     updateProgressBar e
       (if eq_false e then w\<lparr>currentMediaTime := 0, castPlayerState := IDLE\<rparr> else w)"

definition setProgressFlag :: "world \<Rightarrow> world" where
  "setProgressFlag w = w\<lparr>progressFlag := True\<rparr>"

text \<open>\<open>pp > PROGRESS_BAR_WIDTH\<close>, false when \<open>pp\<close> is undefined.\<close>

fun exceeds :: "int option \<Rightarrow> bool" where
  "exceeds None = False"
| "exceeds (Some n) = (PROGRESS_BAR_WIDTH < n)"

definition updateProgressBarByTimer :: "world \<Rightarrow> world" where
  "updateProgressBarByTimer w =
     (let w1 = (if parseInt_css (progress_width w) = None
                then w\<lparr>progress_width := Bare 0\<rparr> else w);
          pp = (if 0 < currentMediaDuration w1
                then Some \<lfloor>of_int PROGRESS_BAR_WIDTH * currentMediaTime w1
                              / currentMediaDuration w1\<rfloor>
                else None);
          w2 = (if progressFlag w1
                then w1\<lparr>progress_width := px pp,
                        indicator_marginLeft :=
                          px (map_option (\<lambda>n. - 21 - PROGRESS_BAR_WIDTH + n) pp)\<rparr>
                else w1)
      in if exceeds pp
         then (clearInterval (timer w2) w2)\<lparr>deviceState := D_IDLE, castPlayerState := IDLE\<rparr>
         else w2)"

text \<open>The interval callback. \<open>localPlayerState\<close> is never assigned, so it is undefined.\<close>

definition incrementMediaTime :: "world \<Rightarrow> world" where
  "incrementMediaTime w =
     (if castPlayerState w = PLAYING
      then (if currentMediaTime w < currentMediaDuration w
            then updateProgressBarByTimer (w\<lparr>currentMediaTime := currentMediaTime w + 1\<rparr>)
            else clearInterval (timer w) (w\<lparr>currentMediaTime := 0\<rparr>))
      else w)"

section \<open>Playback controller\<close>

definition playMedia :: "world \<Rightarrow> result" where
  "playMedia w =
     (if castPlayerState w = IDLE then Inr w
      else if castPlayerState w = LOADED \<or> castPlayerState w = PAUSED
      then (case currentMediaSession w of
              None \<Rightarrow> Inl (TypeError, w)
            | Some m \<Rightarrow>
                Inr (startProgressTimer
                       ((sdk AddUpdateListener (sdk MediaPlay w))
                          \<lparr>castPlayerState := PLAYING\<rparr>)))
      else if castPlayerState w = LOADING \<or> castPlayerState w = STOPPED
      then (case loadMedia w of
              Inl x \<Rightarrow> Inl x
            | Inr w1 \<Rightarrow>
                (case currentMediaSession w1 of
                   None \<Rightarrow> Inl (TypeError, w1)
                 | Some m \<Rightarrow>
                     Inr ((sdk AddUpdateListener w1)\<lparr>castPlayerState := PLAYING\<rparr>)))
      else Inr w)"

definition pauseMedia :: "world \<Rightarrow> result" where
  "pauseMedia w =
     (if castPlayerState w = PLAYING
      then (let w1 = w\<lparr>castPlayerState := PAUSED\<rparr>
            in case currentMediaSession w1 of
                 None \<Rightarrow> Inl (TypeError, w1)
               | Some m \<Rightarrow> Inr (clearInterval (timer w1) (sdk MediaPause w1)))
      else Inr w)"

definition stopMedia :: "world \<Rightarrow> result" where
  "stopMedia w =
     (case currentMediaSession w of
        None \<Rightarrow> Inl (TypeError, w)
      | Some m \<Rightarrow>
          Inr (clearInterval (timer w) ((sdk MediaStop w)\<lparr>castPlayerState := STOPPED\<rparr>)))"

definition setReceiverVolume :: "bool \<Rightarrow> mouse_event \<Rightarrow> world \<Rightarrow> result" where
  "setReceiverVolume mute event w =
     (let pos = parseInt (offsetY event);
          w1 = (if currentTarget_id event = ''audio_bg_track''
                   \<or> currentTarget_id event = ''audio_bg_level''
                then (if pos < 100 then w\<lparr>currentVolume := of_int pos / 100\<rparr>
                      else w\<lparr>currentVolume := 1\<rparr>)
                else w)
      in case session w1 of
           None \<Rightarrow> Inl (TypeError, w1)
         | Some s \<Rightarrow>
             Inr (if \<not> mute then sdk (SetReceiverVolumeLevel (currentVolume w1)) w1
                  else sdk (SetReceiverMuted True) w1))"

definition muteMedia :: "mouse_event \<Rightarrow> world \<Rightarrow> result" where
  "muteMedia event w =
     (if audio w
      then (let w1 = w\<lparr>audio := False\<rparr>
            in if currentMediaSession w1 \<noteq> None then setReceiverVolume True event w1
               else Inr w1)
      else (let w1 = w\<lparr>audio := True\<rparr>
            in if currentMediaSession w1 \<noteq> None then setReceiverVolume False event w1
               else Inr w1))"

text \<open>
  The seek handler serves a click on the bar and the end of a drag of the indicator;
  \<open>curr\<close> is the target time, \<open>pw\<close> and \<open>pp\<close> the new width and margin.
\<close>

definition seekMedia :: "mouse_event \<Rightarrow> world \<Rightarrow> result" where
  "seekMedia event w =
     (let pos = parseInt (offsetX event);
          indicator = (currentTarget_id event = ''progress_indicator'');
          curr = (if indicator
                  then parseInt (currentMediaTime w
                                 + currentMediaDuration w * of_int pos
                                   / of_int PROGRESS_BAR_WIDTH)
                  else parseInt (of_int pos * currentMediaDuration w
                                 / of_int PROGRESS_BAR_WIDTH));
          pp = (if indicator
                then map_option (\<lambda>n. n + pos) (parseInt_css (indicator_marginLeft w))
                else Some (pos - 21 - PROGRESS_BAR_WIDTH));
          pw = (if indicator
                then map_option (\<lambda>n. n + pos) (parseInt_css (progress_width w))
                else Some pos);
          w1 = (if castPlayerState w = PLAYING \<or> castPlayerState w = PAUSED
                then w\<lparr>progress_width := px pw, indicator_marginLeft := px pp\<rparr>
                else w)
      in if castPlayerState w1 \<noteq> PLAYING \<and> castPlayerState w1 \<noteq> PAUSED then Inr w1
         else (let w2 = w1\<lparr>currentMediaTime := of_int curr\<rparr>
               in case currentMediaSession w2 of
                    None \<Rightarrow> Inl (TypeError, w2)
                  | Some m \<Rightarrow>
                      Inr ((sdk (MediaSeek (currentMediaTime w2)) w2)
                             \<lparr>castPlayerState := SEEKING\<rparr>)))"

definition onSeekSuccess :: "world \<Rightarrow> world" where
  "onSeekSuccess w = w\<lparr>castPlayerState := PLAYING\<rparr>"

section \<open>Source locator\<close>

text \<open>
  The value of \<open>attemptCount++\<close> is the count before the increment; the increment itself
  goes to the variable of the closure, which is not read again.
\<close>

definition post_increment :: "nat \<Rightarrow> nat \<times> nat" where
  "post_increment n = (n, Suc n)"

definition reschedule :: "nat \<Rightarrow> world \<Rightarrow> world" where
  "reschedule attemptCount w =
     (if attemptCount \<le> MAX_ATTEMPT_COUNT
      then setTimeout (T_findCloudPlayerSource attemptCount) w
      else w)"

definition findCloudPlayerSource :: "nat option \<Rightarrow> page \<Rightarrow> world \<Rightarrow> world" where
  "findCloudPlayerSource arg pg w =
     (if mediaContent w \<noteq> None then w
      else (let attemptCount = (case arg of None \<Rightarrow> 0 | Some n \<Rightarrow> n)
            in case jwplayer pg of
                 None \<Rightarrow> reschedule attemptCount w
               | Some j \<Rightarrow>
                   (case getPlaylist j of
                      None \<Rightarrow> reschedule attemptCount w
                    | Some None \<Rightarrow> reschedule attemptCount w
                    | Some (Some []) \<Rightarrow> w
                    | Some (Some (m # ms)) \<Rightarrow>
                        w\<lparr>mediaContent := Some
                            \<lparr>title = (case item_title m of
                                        Some t \<Rightarrow> Some t
                                      | None \<Rightarrow> page_header pg),
                             source = (if take 4 (item_file m) \<noteq> ''http''
                                       then ''http://'' @ host pg @ item_file m
                                       else item_file m),
                             thumb = item_image m,
                             subtitle = []\<rparr>\<rparr>)))"

definition findbitShareSource :: "page \<Rightarrow> world \<Rightarrow> world" where
  "findbitShareSource pg w =
     (if mediaContent w \<noteq> None then w
      else (case stream_flash pg of
              None \<Rightarrow> w
            | Some scriptElements \<Rightarrow>
                if length scriptElements < 2 then w
                else (let playerScript = scriptElements ! 1
                      in if length playerScript < 1 then w
                         else (case regexp_exec pg playerScript of
                                 None \<Rightarrow> w
                               | Some (g1, g2) \<Rightarrow>
                                   w\<lparr>mediaContent := Some
                                       \<lparr>title = Some ''Unknown'',
                                        source = g1 @ g2,
                                        thumb = Some [],
                                        subtitle = []\<rparr>\<rparr>))))"

definition resourceSearchFunctions :: "(page \<Rightarrow> world \<Rightarrow> world) list" where
  "resourceSearchFunctions = [findCloudPlayerSource None, findbitShareSource]"

fun searchLoop :: "(page \<Rightarrow> world \<Rightarrow> world) list \<Rightarrow> page \<Rightarrow> world \<Rightarrow> world" where
  "searchLoop [] pg w = w"
| "searchLoop (f # fs) pg w =
     (if mediaContent w \<noteq> None then w else searchLoop fs pg (f pg w))"

definition searchVideoSource :: "page \<Rightarrow> world \<Rightarrow> world" where
  "searchVideoSource pg w = searchLoop resourceSearchFunctions pg w"

definition retrySourceSearch :: "page \<Rightarrow> world \<Rightarrow> world" where
  "retrySourceSearch pg w = searchVideoSource pg w"

section \<open>Construction and the event loop\<close>

definition initializeCastPlayer :: "page \<Rightarrow> world \<Rightarrow> world" where
  "initializeCastPlayer pg w =
     (if \<not> cast_available pg then setTimeout T_initializeCastPlayer w
      else searchVideoSource pg (sdk Initialize w))"

text \<open>
  The constructor. The markup of the player is not among the sources; the two style
  properties start unassigned, no interval is live and the first handle is 1.
\<close>

definition CastPlayer :: "page \<Rightarrow> world" where
  "CastPlayer pg =
     initializeCastPlayer pg
       \<lparr>deviceState = D_IDLE,
        currentMediaSession = None,
        currentVolume = 1 / 2,
        autoplay = True,
        session = None,
        castPlayerState = IDLE,
        audio = True,
        mediaContent = None,
        currentMediaTime = 0,
        currentMediaDuration = - 1,
        timer = None,
        progressFlag = True,
        timerStep = 1000,
        intervals = {},
        nextId = 1,
        timeouts = [],
        calls = [],
        progress_width = Empty,
        indicator_marginLeft = Empty\<rparr>"

text \<open>Running a pending timeout callback.\<close>

fun fire :: "task \<Rightarrow> page \<Rightarrow> world \<Rightarrow> world" where
  "fire T_initializeCastPlayer pg w = initializeCastPlayer pg w"
| "fire T_setProgressFlag pg w = setProgressFlag w"
| "fire (T_findCloudPlayerSource attemptCount) pg w =
     findCloudPlayerSource (Some (fst (post_increment attemptCount))) pg w"

text \<open>
  What the browser and the SDK can deliver to the controller: the listeners bound by
  \<open>initializeUI\<close>, the public method \<open>stopMedia\<close>, the continuations handed to the SDK,
  a tick of an interval and the next pending timeout. A callback that throws ends there;
  the event loop goes on from the world it left.
\<close>

datatype event =
  Click_casticonidle
| Click_casticonactive
| Click_play
| Click_pause
| Seek mouse_event
| Click_audio mouse_event
| Click_volume mouse_event
| Click_retry page
| Call_stopMedia
| Cb_sessionListener "Session option"
| Cb_onRequestSessionSuccess Session
| Cb_onLaunchError
| Cb_onStopAppSuccess
| Cb_onMediaDiscovered Media
| Cb_onLoadMediaError
| Cb_onMediaStatusUpdate status
| Cb_onSeekSuccess
| Interval nat
| Timeout page

fun step :: "event \<Rightarrow> world \<Rightarrow> world" where
  "step Click_casticonidle w = launchApp w"
| "step Click_casticonactive w = settle (stopApp w)"
| "step Click_play w = settle (playMedia w)"
| "step Click_pause w = settle (pauseMedia w)"
| "step (Seek ev) w = settle (seekMedia ev w)"
| "step (Click_audio ev) w = settle (muteMedia ev w)"
| "step (Click_volume ev) w = settle (setReceiverVolume False ev w)"
| "step (Click_retry pg) w = retrySourceSearch pg w"
| "step Call_stopMedia w = settle (stopMedia w)"
| "step (Cb_sessionListener e) w = settle (sessionListener e w)"
| "step (Cb_onRequestSessionSuccess e) w = settle (onRequestSessionSuccess e w)"
| "step Cb_onLaunchError w = onLaunchError w"
| "step Cb_onStopAppSuccess w = onStopAppSuccess w"
| "step (Cb_onMediaDiscovered m) w = settle (onMediaDiscovered H_loadMedia m w)"
| "step Cb_onLoadMediaError w = onLoadMediaError w"
| "step (Cb_onMediaStatusUpdate e) w = settle (onMediaStatusUpdate e w)"
| "step Cb_onSeekSuccess w = onSeekSuccess w"
| "step (Interval i) w = (if i \<in> intervals w then incrementMediaTime w else w)"
| "step (Timeout pg) w =
     (case timeouts w of
        [] \<Rightarrow> w
      | t # ts \<Rightarrow> fire t pg (w\<lparr>timeouts := ts\<rparr>))"

fun run :: "event list \<Rightarrow> world \<Rightarrow> world" where
  "run [] w = w"
| "run (e # es) w = run es (step e w)"

section \<open>Example page, session and events\<close>

definition no_match :: "string \<Rightarrow> (string \<times> string) option" where
  "no_match s = None"

text \<open>A page whose embedded player already answers with a playlist of one clip.\<close>

definition page_ready :: page where
  "page_ready =
     \<lparr>cast_available = True,
      jwplayer = Some \<lparr>getPlaylist = Some (Some
        [\<lparr>item_title = Some ''Clip'', item_file = ''/v/clip.mp4'', item_image = None\<rparr>])\<rparr>,
      host = ''example.org'',
      page_header = None,
      stream_flash = None,
      regexp_exec = no_match\<rparr>"

text \<open>A page on which the global \<open>jwplayer\<close> is never defined.\<close>

definition page_bare :: page where
  "page_bare =
     \<lparr>cast_available = True,
      jwplayer = None,
      host = ''example.org'',
      page_header = None,
      stream_flash = None,
      regexp_exec = no_match\<rparr>"

definition media120 :: Media where
  "media120 =
     \<lparr>mediaSessionId = 1, media_sessionId = ''s1'', media_duration = 120,
      media_playerState = ''PLAYING'', media_currentTime = 0\<rparr>"

text \<open>A clip of half a second: the first tick of the timer overshoots the bar.\<close>

definition media_short :: Media where
  "media_short =
     \<lparr>mediaSessionId = 2, media_sessionId = ''s1'', media_duration = 1 / 2,
      media_playerState = ''PLAYING'', media_currentTime = 0\<rparr>"

definition session1 :: Session where
  "session1 = \<lparr>sessionId = ''s1'', media = []\<rparr>"

definition bar_click :: "rat \<Rightarrow> mouse_event" where
  "bar_click x = \<lparr>currentTarget_id = ''progress_bg'', offsetX = x, offsetY = 0\<rparr>"

definition audio_click :: mouse_event where
  "audio_click = \<lparr>currentTarget_id = ''audio_on'', offsetX = 5, offsetY = 5\<rparr>"

text \<open>
  The user starts casting on the ready page, the session is granted and the load of
  \<open>media120\<close> succeeds: the player is PLAYING and interval 1 is live.
\<close>

definition cast_started :: "event list" where
  "cast_started =
     [Click_casticonidle, Cb_onRequestSessionSuccess session1, Cb_onMediaDiscovered media120]"

text \<open>The same with the short clip.\<close>

definition cast_started_short :: "event list" where
  "cast_started_short =
     [Click_casticonidle, Cb_onRequestSessionSuccess session1,
      Cb_onMediaDiscovered media_short]"

section \<open>The timer invariant\<close>

definition timer_running :: "world \<Rightarrow> bool" where
  "timer_running w \<longleftrightarrow> intervals w \<noteq> {}"

text \<open>
  Every live interval is the one held in \<open>this.timer\<close>, handles are positive, and an
  interval is live only while a media session is held.
\<close>

definition timer_inv :: "world \<Rightarrow> bool" where
  "timer_inv w \<longleftrightarrow>
     intervals w \<subseteq> set_option (timer w) \<and> 0 \<notin> intervals w \<and> 0 < nextId w
     \<and> (intervals w = {} \<or> currentMediaSession w \<noteq> None)"

lemma clearInterval_fields [simp]:
  "timer (clearInterval t w) = timer w"
  "nextId (clearInterval t w) = nextId w"
  "intervals (clearInterval t w) = intervals w - set_option t"
  "castPlayerState (clearInterval t w) = castPlayerState w"
  "currentMediaSession (clearInterval t w) = currentMediaSession w"
  by (auto simp: clearInterval_def split: option.splits)

lemma inv_clearInterval: "timer_inv w \<Longrightarrow> timer_inv (clearInterval t w)"
  by (auto simp: timer_inv_def)

lemma inv_clear_own: "timer_inv w \<Longrightarrow> intervals w - set_option (timer w) = {}"
  by (auto simp: timer_inv_def)

lemma inv_startProgressTimer:
  "timer_inv w \<Longrightarrow> currentMediaSession w \<noteq> None \<Longrightarrow> timer_inv (startProgressTimer w)"
  by (cases "timer w") (auto simp: timer_inv_def startProgressTimer_def setInterval_def)

lemma running_startProgressTimer: "timer_running (startProgressTimer w)"
  by (simp add: timer_running_def startProgressTimer_def setInterval_def)

lemma startProgressTimer_fields [simp]:
  "castPlayerState (startProgressTimer w) = castPlayerState w"
  "currentMediaSession (startProgressTimer w) = currentMediaSession w"
  by (simp_all add: startProgressTimer_def setInterval_def)

lemma inv_sdk [simp]: "timer_inv (sdk c w) = timer_inv w"
  by (simp add: timer_inv_def sdk_def)

lemma inv_setTimeout [simp]: "timer_inv (setTimeout c w) = timer_inv w"
  by (simp add: timer_inv_def setTimeout_def)

lemma inv_upd [simp]:
  "timer_inv (w\<lparr>castPlayerState := a\<rparr>) = timer_inv w"
  "timer_inv (w\<lparr>deviceState := b\<rparr>) = timer_inv w"
  "timer_inv (w\<lparr>currentMediaTime := d\<rparr>) = timer_inv w"
  "timer_inv (w\<lparr>currentMediaDuration := d\<rparr>) = timer_inv w"
  "timer_inv (w\<lparr>session := f\<rparr>) = timer_inv w"
  "timer_inv (w\<lparr>progress_width := g\<rparr>) = timer_inv w"
  "timer_inv (w\<lparr>indicator_marginLeft := g\<rparr>) = timer_inv w"
  "timer_inv (w\<lparr>progressFlag := h\<rparr>) = timer_inv w"
  "timer_inv (w\<lparr>audio := h\<rparr>) = timer_inv w"
  "timer_inv (w\<lparr>currentVolume := d\<rparr>) = timer_inv w"
  "timer_inv (w\<lparr>mediaContent := k\<rparr>) = timer_inv w"
  "timer_inv (w\<lparr>timeouts := l\<rparr>) = timer_inv w"
  by (simp_all add: timer_inv_def)

lemma inv_set_media: "timer_inv w \<Longrightarrow> timer_inv (w\<lparr>currentMediaSession := Some m\<rparr>)"
  by (simp add: timer_inv_def)

lemma inv_launchApp: "timer_inv w \<Longrightarrow> timer_inv (launchApp w)"
  by (auto simp: launchApp_def Let_def timer_inv_def sdk_def)

lemma inv_loadMedia: "timer_inv w \<Longrightarrow> timer_inv (settle (loadMedia w))"
  by (simp add: loadMedia_def split: option.splits)

lemma inv_onRequestSessionSuccess:
  "timer_inv w \<Longrightarrow> timer_inv (settle (onRequestSessionSuccess e w))"
  by (simp add: onRequestSessionSuccess_def inv_loadMedia)

lemma inv_stopApp: "timer_inv w \<Longrightarrow> timer_inv (settle (stopApp w))"
  by (simp add: stopApp_def split: option.splits)

lemma inv_onStopAppSuccess: "timer_inv w \<Longrightarrow> timer_inv (onStopAppSuccess w)"
  by (auto simp: onStopAppSuccess_def resetProgressAndDuration_def timer_inv_def)

lemma inv_onMediaDiscovered:
  "timer_inv w \<Longrightarrow> timer_inv (settle (onMediaDiscovered h m w))"
  by (simp add: onMediaDiscovered_def Let_def inv_startProgressTimer inv_set_media
      split: option.splits list.splits)

lemma inv_sessionListener: "timer_inv w \<Longrightarrow> timer_inv (settle (sessionListener e w))"
  by (simp add: sessionListener_def Let_def inv_onMediaDiscovered
      split: option.splits list.splits)

lemma inv_updateProgressBar: "timer_inv w \<Longrightarrow> timer_inv (settle (updateProgressBar e w))"
  by (simp add: updateProgressBar_def Let_def inv_clearInterval split: option.splits)

lemma inv_onMediaStatusUpdate:
  "timer_inv w \<Longrightarrow> timer_inv (settle (onMediaStatusUpdate e w))"
  by (simp add: onMediaStatusUpdate_def inv_updateProgressBar)

lemma inv_updateProgressBarByTimer: "timer_inv w \<Longrightarrow> timer_inv (updateProgressBarByTimer w)"
  by (simp add: updateProgressBarByTimer_def Let_def inv_clearInterval)

lemma inv_incrementMediaTime: "timer_inv w \<Longrightarrow> timer_inv (incrementMediaTime w)"
  by (simp add: incrementMediaTime_def inv_clearInterval inv_updateProgressBarByTimer)

lemma sdk_fields [simp]:
  "currentMediaSession (sdk c w) = currentMediaSession w"
  "castPlayerState (sdk c w) = castPlayerState w"
  "intervals (sdk c w) = intervals w"
  "timer (sdk c w) = timer w"
  by (simp_all add: sdk_def)

lemma inv_playMedia: "timer_inv w \<Longrightarrow> timer_inv (settle (playMedia w))"
  using inv_loadMedia [of w]
  by (auto simp: playMedia_def inv_startProgressTimer split: option.splits sum.splits)

lemma inv_pauseMedia: "timer_inv w \<Longrightarrow> timer_inv (settle (pauseMedia w))"
  by (simp add: pauseMedia_def Let_def inv_clearInterval split: option.splits)

lemma inv_stopMedia: "timer_inv w \<Longrightarrow> timer_inv (settle (stopMedia w))"
  by (simp add: stopMedia_def inv_clearInterval split: option.splits)

lemma inv_setReceiverVolume:
  "timer_inv w \<Longrightarrow> timer_inv (settle (setReceiverVolume b ev w))"
  by (simp add: setReceiverVolume_def Let_def split: option.splits)

lemma inv_muteMedia: "timer_inv w \<Longrightarrow> timer_inv (settle (muteMedia ev w))"
  by (simp add: muteMedia_def Let_def inv_setReceiverVolume)

lemma inv_seekMedia: "timer_inv w \<Longrightarrow> timer_inv (settle (seekMedia ev w))"
  by (simp add: seekMedia_def Let_def split: option.splits)

lemma inv_reschedule [simp]: "timer_inv (reschedule n w) = timer_inv w"
  by (simp add: reschedule_def)

lemma inv_findCloudPlayerSource: "timer_inv w \<Longrightarrow> timer_inv (findCloudPlayerSource a pg w)"
  by (simp add: findCloudPlayerSource_def Let_def split: option.splits list.splits)

lemma inv_findbitShareSource: "timer_inv w \<Longrightarrow> timer_inv (findbitShareSource pg w)"
  by (simp add: findbitShareSource_def Let_def split: option.splits prod.splits)

lemma inv_searchVideoSource: "timer_inv w \<Longrightarrow> timer_inv (searchVideoSource pg w)"
  by (simp add: searchVideoSource_def resourceSearchFunctions_def
      inv_findCloudPlayerSource inv_findbitShareSource)

lemma inv_initializeCastPlayer: "timer_inv w \<Longrightarrow> timer_inv (initializeCastPlayer pg w)"
  by (simp add: initializeCastPlayer_def inv_searchVideoSource)

lemma inv_fire: "timer_inv w \<Longrightarrow> timer_inv (fire t pg w)"
  by (cases t)
     (simp_all add: inv_initializeCastPlayer inv_findCloudPlayerSource setProgressFlag_def)

lemma inv_step: "timer_inv w \<Longrightarrow> timer_inv (step e w)"
  by (cases e)
     (simp_all add: inv_launchApp inv_stopApp inv_playMedia inv_pauseMedia inv_seekMedia
        inv_muteMedia inv_setReceiverVolume retrySourceSearch_def inv_searchVideoSource
        inv_stopMedia inv_sessionListener inv_onRequestSessionSuccess onLaunchError_def
        inv_onStopAppSuccess inv_onMediaDiscovered onLoadMediaError_def
        inv_onMediaStatusUpdate onSeekSuccess_def inv_incrementMediaTime inv_fire
        split: list.splits)

lemma inv_run: "timer_inv w \<Longrightarrow> timer_inv (run evs w)"
  by (induction evs arbitrary: w) (simp_all add: inv_step)

lemma inv_CastPlayer: "timer_inv (CastPlayer pg)"
  unfolding CastPlayer_def
  by (rule inv_initializeCastPlayer) (simp add: timer_inv_def)

lemma inv_reachable: "timer_inv (run evs (CastPlayer pg))"
  by (rule inv_run) (rule inv_CastPlayer)

section \<open>Evaluating the example runs\<close>

lemmas example_defs =
  page_ready_def page_bare_def media120_def media_short_def session1_def
  bar_click_def audio_click_def cast_started_def cast_started_short_def no_match_def

lemmas method_defs =
  CastPlayer_def initializeCastPlayer_def searchVideoSource_def
  resourceSearchFunctions_def findCloudPlayerSource_def findbitShareSource_def
  reschedule_def launchApp_def loadMedia_def onRequestSessionSuccess_def
  onMediaDiscovered_def startProgressTimer_def setInterval_def clearInterval_def
  setTimeout_def sdk_def seekMedia_def parseInt_def PROGRESS_BAR_WIDTH_def
  MAX_ATTEMPT_COUNT_def pauseMedia_def onSeekSuccess_def playMedia_def stopMedia_def
  muteMedia_def setReceiverVolume_def onMediaStatusUpdate_def updateProgressBar_def
  scaled_def incrementMediaTime_def updateProgressBarByTimer_def onStopAppSuccess_def
  resetProgressAndDuration_def onLoadMediaError_def post_increment_def

lemma ready_world:
  "CastPlayer page_ready =
     \<lparr>deviceState = D_IDLE, currentMediaSession = None, currentVolume = 1 / 2,
      autoplay = True, session = None, castPlayerState = IDLE, audio = True,
      mediaContent = Some \<lparr>title = Some ''Clip'', source = ''http://example.org/v/clip.mp4'',
                            thumb = None, subtitle = []\<rparr>,
      currentMediaTime = 0, currentMediaDuration = - 1, timer = None,
      progressFlag = True, timerStep = 1000, intervals = {}, nextId = 1,
      timeouts = [], calls = [Initialize], progress_width = Empty,
      indicator_marginLeft = Empty\<rparr>"
  by (simp add: example_defs method_defs)

lemma started_world:
  "run cast_started (CastPlayer page_ready) =
     \<lparr>deviceState = D_ACTIVE, currentMediaSession = Some media120, currentVolume = 1 / 2,
      autoplay = True, session = Some session1, castPlayerState = PLAYING, audio = True,
      mediaContent = Some \<lparr>title = Some ''Clip'', source = ''http://example.org/v/clip.mp4'',
                            thumb = None, subtitle = []\<rparr>,
      currentMediaTime = 0, currentMediaDuration = 120, timer = Some 1,
      progressFlag = True, timerStep = 1000, intervals = {1}, nextId = 2,
      timeouts = [],
      calls = [Initialize, RequestSession,
               SessionLoadMedia ''http://example.org/v/clip.mp4'' True, AddUpdateListener],
      progress_width = Empty, indicator_marginLeft = Empty\<rparr>"
  by (simp add: ready_world cast_started_def)
     (simp add: media120_def session1_def method_defs Let_def)

lemma started_short_world:
  "run cast_started_short (CastPlayer page_ready) =
     \<lparr>deviceState = D_ACTIVE, currentMediaSession = Some media_short, currentVolume = 1 / 2,
      autoplay = True, session = Some session1, castPlayerState = PLAYING, audio = True,
      mediaContent = Some \<lparr>title = Some ''Clip'', source = ''http://example.org/v/clip.mp4'',
                            thumb = None, subtitle = []\<rparr>,
      currentMediaTime = 0, currentMediaDuration = 1 / 2, timer = Some 1,
      progressFlag = True, timerStep = 1000, intervals = {1}, nextId = 2,
      timeouts = [],
      calls = [Initialize, RequestSession,
               SessionLoadMedia ''http://example.org/v/clip.mp4'' True, AddUpdateListener],
      progress_width = Empty, indicator_marginLeft = Empty\<rparr>"
  by (simp add: ready_world cast_started_short_def)
     (simp add: media_short_def session1_def method_defs Let_def)

lemma run_append: "run (xs @ ys) w = run ys (run xs w)"
  by (induction xs arbitrary: w) simp_all

section \<open>Loading without a session\<close>

text \<open>
  C10. \<open>loadMedia\<close> called while \<open>this.session\<close> is null returns at once: it returns
  normally and the world is the one it was given, so no call reaches the SDK, no field
  changes and \<open>castPlayerState\<close> is not set to LOADING.
\<close>

theorem loadMedia_no_session:
  "session w = None \<Longrightarrow> loadMedia w = Inr w"
  by (simp add: loadMedia_def)

theorem loadMedia_no_session_witness:
  "session (CastPlayer page_ready) = None
   \<and> loadMedia (CastPlayer page_ready) = Inr (CastPlayer page_ready)
   \<and> castPlayerState (CastPlayer page_ready) = IDLE"
proof -
  have h: "session (CastPlayer page_ready) = None"
    by (simp add: ready_world)
  show ?thesis
    using h loadMedia_no_session [OF h] by (simp add: ready_world)
qed

section \<open>The descriptor is written once\<close>

lemma mediaContent_clearInterval [simp]:
  "mediaContent (clearInterval t w) = mediaContent w"
  by (simp add: clearInterval_def split: option.splits)

lemma mediaContent_sdk [simp]: "mediaContent (sdk c w) = mediaContent w"
  by (simp add: sdk_def)

lemma mediaContent_setTimeout [simp]: "mediaContent (setTimeout t w) = mediaContent w"
  by (simp add: setTimeout_def)

lemma mediaContent_startProgressTimer [simp]:
  "mediaContent (startProgressTimer w) = mediaContent w"
  by (simp add: startProgressTimer_def setInterval_def)

lemma set_findCloudPlayerSource:
  "mediaContent w \<noteq> None \<Longrightarrow> findCloudPlayerSource a pg w = w"
  by (simp add: findCloudPlayerSource_def)

lemma set_findbitShareSource:
  "mediaContent w \<noteq> None \<Longrightarrow> findbitShareSource pg w = w"
  by (simp add: findbitShareSource_def)

lemma set_searchVideoSource:
  "mediaContent w \<noteq> None \<Longrightarrow> searchVideoSource pg w = w"
  by (simp add: searchVideoSource_def resourceSearchFunctions_def)

lemma mediaContent_loadMedia:
  "mediaContent (settle (loadMedia w)) = mediaContent w"
  by (simp add: loadMedia_def split: option.splits)

lemma mediaContent_onMediaDiscovered:
  "mediaContent (settle (onMediaDiscovered h m w)) = mediaContent w"
  by (simp add: onMediaDiscovered_def Let_def split: option.splits list.splits)

lemma mediaContent_sessionListener:
  "mediaContent (settle (sessionListener e w)) = mediaContent w"
  by (simp add: sessionListener_def Let_def mediaContent_onMediaDiscovered
      split: option.splits list.splits)

lemma mediaContent_updateProgressBar:
  "mediaContent (settle (updateProgressBar e w)) = mediaContent w"
  by (simp add: updateProgressBar_def Let_def split: option.splits)

lemma mediaContent_onMediaStatusUpdate:
  "mediaContent (settle (onMediaStatusUpdate e w)) = mediaContent w"
  by (simp add: onMediaStatusUpdate_def mediaContent_updateProgressBar)

lemma mediaContent_incrementMediaTime:
  "mediaContent (incrementMediaTime w) = mediaContent w"
  by (simp add: incrementMediaTime_def updateProgressBarByTimer_def Let_def)

lemma mediaContent_playMedia:
  "mediaContent (settle (playMedia w)) = mediaContent w"
  using mediaContent_loadMedia [of w]
  by (auto simp: playMedia_def split: option.splits sum.splits)

lemma mediaContent_pauseMedia:
  "mediaContent (settle (pauseMedia w)) = mediaContent w"
  by (simp add: pauseMedia_def Let_def split: option.splits)

lemma mediaContent_stopMedia:
  "mediaContent (settle (stopMedia w)) = mediaContent w"
  by (simp add: stopMedia_def split: option.splits)

lemma mediaContent_setReceiverVolume:
  "mediaContent (settle (setReceiverVolume b ev w)) = mediaContent w"
  by (simp add: setReceiverVolume_def Let_def split: option.splits)

lemma mediaContent_muteMedia:
  "mediaContent (settle (muteMedia ev w)) = mediaContent w"
  by (simp add: muteMedia_def Let_def mediaContent_setReceiverVolume)

lemma mediaContent_seekMedia:
  "mediaContent (settle (seekMedia ev w)) = mediaContent w"
  by (simp add: seekMedia_def Let_def split: option.splits)

lemma mediaContent_fire:
  "mediaContent w \<noteq> None \<Longrightarrow> mediaContent (fire t pg w) = mediaContent w"
  by (cases t)
     (simp_all add: initializeCastPlayer_def set_searchVideoSource
        set_findCloudPlayerSource setProgressFlag_def)

lemma mediaContent_step:
  "mediaContent w \<noteq> None \<Longrightarrow> mediaContent (step e w) = mediaContent w"
  by (cases e)
     (simp_all add: launchApp_def Let_def stopApp_def mediaContent_playMedia
        mediaContent_pauseMedia mediaContent_seekMedia mediaContent_muteMedia
        mediaContent_setReceiverVolume retrySourceSearch_def set_searchVideoSource
        mediaContent_stopMedia mediaContent_sessionListener onRequestSessionSuccess_def
        mediaContent_loadMedia onLaunchError_def onStopAppSuccess_def
        resetProgressAndDuration_def mediaContent_onMediaDiscovered onLoadMediaError_def
        mediaContent_onMediaStatusUpdate onSeekSuccess_def mediaContent_incrementMediaTime
        mediaContent_fire split: option.splits list.splits)

lemma mediaContent_run:
  "mediaContent w \<noteq> None \<Longrightarrow> mediaContent (run evs w) = mediaContent w"
  by (induction evs arbitrary: w) (simp_all add: mediaContent_step)

text \<open>
  C8. Once \<open>mediaContent\<close> is set, each source search function and the search loop
  itself see it and return the world unchanged (nothing is rescheduled either), and no
  sequence of later events changes the descriptor: the first writer wins.
\<close>

theorem descriptor_first_writer_wins:
  "mediaContent w = Some mc \<Longrightarrow>
     findCloudPlayerSource a pg w = w
     \<and> findbitShareSource pg w = w
     \<and> searchVideoSource pg w = w
     \<and> mediaContent (run evs w) = Some mc"
  by (simp add: set_findCloudPlayerSource set_findbitShareSource set_searchVideoSource
      mediaContent_run)

theorem descriptor_first_writer_wins_witness:
  "mediaContent (CastPlayer page_ready)
     = Some \<lparr>title = Some ''Clip'', source = ''http://example.org/v/clip.mp4'',
             thumb = None, subtitle = []\<rparr>
   \<and> findbitShareSource page_bare (CastPlayer page_ready) = CastPlayer page_ready
   \<and> mediaContent (run [Click_retry page_bare, Timeout page_bare] (CastPlayer page_ready))
     = Some \<lparr>title = Some ''Clip'', source = ''http://example.org/v/clip.mp4'',
             thumb = None, subtitle = []\<rparr>"
proof -
  have h: "mediaContent (CastPlayer page_ready)
     = Some \<lparr>title = Some ''Clip'', source = ''http://example.org/v/clip.mp4'',
             thumb = None, subtitle = []\<rparr>"
    by (simp add: ready_world)
  show ?thesis
    using h descriptor_first_writer_wins
      [OF h, of None page_bare "[Click_retry page_bare, Timeout page_bare]"]
    by simp
qed

section \<open>Commands while idle\<close>

text \<open>
  C5 (as the code has it). While \<open>castPlayerState\<close> is IDLE, play, pause and seek
  return normally and leave the world as it was: no call reaches the SDK and no field
  changes. \<open>stopMedia\<close>, \<open>muteMedia\<close> and \<open>setReceiverVolume\<close> do not read the state.
\<close>

theorem idle_play_pause_seek_noop:
  "castPlayerState w = IDLE \<Longrightarrow>
     playMedia w = Inr w \<and> pauseMedia w = Inr w \<and> seekMedia ev w = Inr w"
  by (simp add: playMedia_def pauseMedia_def seekMedia_def Let_def)

theorem idle_play_pause_seek_noop_witness:
  "castPlayerState (CastPlayer page_ready) = IDLE
   \<and> playMedia (CastPlayer page_ready) = Inr (CastPlayer page_ready)
   \<and> pauseMedia (CastPlayer page_ready) = Inr (CastPlayer page_ready)
   \<and> seekMedia (bar_click 300) (CastPlayer page_ready) = Inr (CastPlayer page_ready)"
proof -
  have h: "castPlayerState (CastPlayer page_ready) = IDLE"
    by (simp add: ready_world)
  show ?thesis
    using h idle_play_pause_seek_noop [OF h, of "bar_click 300"] by simp
qed

text \<open>
  The media session has ended (the listener was told \<open>false\<close>), so the player is IDLE;
  a click on the mute button then flips \<open>audio\<close> and sends a mute command, and
  \<open>stopMedia\<close> sends a stop command and sets STOPPED.
\<close>

theorem idle_commands_counterexample:
  "castPlayerState (run (cast_started @ [Cb_onMediaStatusUpdate (Alive False)])
                      (CastPlayer page_ready)) = IDLE
   \<and> audio (run (cast_started @ [Cb_onMediaStatusUpdate (Alive False)])
                      (CastPlayer page_ready))
   \<and> \<not> audio (run (cast_started @ [Cb_onMediaStatusUpdate (Alive False), Click_audio audio_click])
                      (CastPlayer page_ready))
   \<and> last (calls (run (cast_started @ [Cb_onMediaStatusUpdate (Alive False), Click_audio audio_click])
                      (CastPlayer page_ready))) = SetReceiverMuted True
   \<and> castPlayerState (run (cast_started @ [Cb_onMediaStatusUpdate (Alive False), Call_stopMedia])
                      (CastPlayer page_ready)) = STOPPED
   \<and> last (calls (run (cast_started @ [Cb_onMediaStatusUpdate (Alive False), Call_stopMedia])
                      (CastPlayer page_ready))) = MediaStop"
  by (simp add: run_append started_world)
     (simp add: media120_def session1_def audio_click_def method_defs Let_def)

section \<open>Seeking\<close>

lemma floor_rat_numeral [simp]:
  "\<lfloor>numeral a / numeral b :: rat\<rfloor> = numeral a div numeral b"
  by (metis floor_divide_of_int_eq of_int_numeral)

lemma floor_rat_one_numeral [simp]:
  "\<lfloor>1 / numeral b :: rat\<rfloor> = 1 div numeral b"
  by (metis floor_divide_of_int_eq of_int_1 of_int_numeral)

lemma ceiling_rat_numeral [simp]:
  "\<lceil>numeral a / numeral b :: rat\<rceil> = - (- numeral a div numeral b)"
  using ceiling_divide_eq_div [of "numeral a" "numeral b", where ?'a = rat] by simp

lemma parseInt_of_int [simp]: "parseInt (of_int n) = n"
  by (simp add: parseInt_def)

lemma parseInt_0 [simp]: "parseInt 0 = 0"
  by (simp add: parseInt_def)

lemma parseInt_numeral [simp]: "parseInt (numeral k) = numeral k"
  by (simp add: parseInt_def)




section \<open>Status pushes from the receiver\<close>




section \<open>The width of the progress bar\<close>

lemma clearInterval_eq:
  "clearInterval t w = w\<lparr>intervals := intervals w - set_option t\<rparr>"
  by (cases t) (simp_all add: clearInterval_def)







section \<open>The end of the media and the end of the session\<close>



text \<open>
  C4 (as the code has it). On a successful stop of the session the controller sets
  \<open>deviceState\<close> and \<open>castPlayerState\<close> to IDLE, clears the media session handle
  \<open>currentMediaSession\<close>, cancels the interval held in \<open>this.timer\<close>, and resets
  \<open>currentMediaTime\<close>, \<open>currentMediaDuration\<close> and the bar to zero; \<open>this.session\<close>
  is not among the fields it writes. After it no progress timer runs in any world the
  player can reach.
\<close>

theorem stop_session_resets:
  "onStopAppSuccess w
     = w\<lparr>deviceState := D_IDLE,
         castPlayerState := IDLE,
         currentMediaSession := None,
         intervals := intervals w - set_option (timer w),
         currentMediaTime := 0,
         currentMediaDuration := 0,
         progress_width := Bare 0,
         indicator_marginLeft := Px (- 21 - PROGRESS_BAR_WIDTH)\<rparr>
   \<and> \<not> timer_running (step Cb_onStopAppSuccess (run evs (CastPlayer pg)))"
  using inv_clear_own [OF inv_reachable, of evs pg]
  by (simp add: onStopAppSuccess_def resetProgressAndDuration_def clearInterval_eq
      timer_running_def)

text \<open>
  The user stops the session that was started; after the success callback
  \<open>this.session\<close> still holds the stopped session.
\<close>

theorem stop_session_counterexample:
  "session (run (cast_started @ [Click_casticonactive, Cb_onStopAppSuccess])
              (CastPlayer page_ready)) = Some session1
   \<and> last (calls (run (cast_started @ [Click_casticonactive]) (CastPlayer page_ready)))
       = SessionStop"
  by (simp add: run_append started_world)
     (simp add: stopApp_def sdk_def onStopAppSuccess_def resetProgressAndDuration_def
        clearInterval_def)

section \<open>Retries of the source search\<close>

lemma bare_world:
  "CastPlayer page_bare =
     \<lparr>deviceState = D_IDLE, currentMediaSession = None, currentVolume = 1 / 2,
      autoplay = True, session = None, castPlayerState = IDLE, audio = True,
      mediaContent = None,
      currentMediaTime = 0, currentMediaDuration = - 1, timer = None,
      progressFlag = True, timerStep = 1000, intervals = {}, nextId = 1,
      timeouts = [T_findCloudPlayerSource 0], calls = [Initialize],
      progress_width = Empty, indicator_marginLeft = Empty\<rparr>"
  by (simp add: example_defs method_defs)

lemma bare_retry_again: "step (Timeout page_bare) (CastPlayer page_bare) = CastPlayer page_bare"
  by (simp add: bare_world)
     (simp add: page_bare_def findCloudPlayerSource_def reschedule_def setTimeout_def
        post_increment_def MAX_ATTEMPT_COUNT_def)

lemma run_replicate_fixed: "step e w = w \<Longrightarrow> run (replicate n e) w = w"
  by (induction n) simp_all

text \<open>
  C7 fails on the code. On a page where \<open>jwplayer\<close> is never defined, the retry that
  \<open>findCloudPlayerSource\<close> schedules carries the attempt count 0 again, because
  \<open>attemptCount++\<close> hands over the value before the increment: however many timeouts
  have fired, the world is the one the constructor left, with one more retry pending and
  no descriptor found.
\<close>

theorem findCloudPlayerSource_retries_forever:
  "run (replicate n (Timeout page_bare)) (CastPlayer page_bare) = CastPlayer page_bare
   \<and> timeouts (CastPlayer page_bare) = [T_findCloudPlayerSource 0]
   \<and> mediaContent (CastPlayer page_bare) = None"
  by (simp add: run_replicate_fixed [OF bare_retry_again]) (simp add: bare_world)

section \<open>The progress timer along every run\<close>

lemma pause_clears:
  assumes "timer_inv w" and "castPlayerState w = PLAYING"
  shows "castPlayerState (step Click_pause w) = PAUSED"
    and "\<not> timer_running (step Click_pause w)"
  using assms
  by (auto simp: pauseMedia_def Let_def timer_running_def timer_inv_def
      split: option.splits)

lemma stop_clears:
  assumes "timer_inv w"
  shows "\<not> timer_running (step Call_stopMedia w)"
  using assms
  by (auto simp: stopMedia_def timer_running_def timer_inv_def split: option.splits)

lemma finished_clears:
  assumes "timer_inv w"
  shows "castPlayerState
           (step (Cb_onMediaStatusUpdate (Status (Some ''FINISHED'') (Some ''IDLE'') c)) w)
           = STOPPED"
    and "\<not> timer_running
           (step (Cb_onMediaStatusUpdate (Status (Some ''FINISHED'') (Some ''IDLE'') c)) w)"
  using assms
  by (auto simp: onMediaStatusUpdate_def updateProgressBar_def timer_running_def
      timer_inv_def)

lemma stop_session_clears:
  assumes "timer_inv w"
  shows "castPlayerState (step Cb_onStopAppSuccess w) = IDLE"
    and "\<not> timer_running (step Cb_onStopAppSuccess w)"
  using assms
  by (auto simp: onStopAppSuccess_def resetProgressAndDuration_def timer_running_def
      timer_inv_def)

lemma tick_clears:
  assumes "timer_inv w" and "castPlayerState w = PLAYING"
    and "castPlayerState (step (Interval i) w) \<noteq> PLAYING"
  shows "\<not> timer_running (step (Interval i) w)"
  using assms
  by (auto simp: incrementMediaTime_def updateProgressBarByTimer_def Let_def
      timer_running_def timer_inv_def split: if_splits)

lemma play_starts:
  assumes "castPlayerState w = LOADED \<or> castPlayerState w = PAUSED"
    and "currentMediaSession w \<noteq> None"
  shows "castPlayerState (step Click_play w) = PLAYING"
    and "timer_running (step Click_play w)"
  using assms by (auto simp: playMedia_def running_startProgressTimer)

lemma load_success_starts:
  assumes "autoplay w"
  shows "castPlayerState (step (Cb_onMediaDiscovered m) w) = PLAYING"
    and "timer_running (step (Cb_onMediaDiscovered m) w)"
  using assms
  by (simp_all add: onMediaDiscovered_def Let_def timer_running_def sdk_def
      startProgressTimer_def setInterval_def)

text \<open>
  C1 (as the code has it). In every world \<open>w\<close> the player reaches, every live interval
  is the one held in \<open>this.timer\<close>, so at most one progress timer runs and none leaks.
  Leaving PLAYING by \<open>pauseMedia\<close>, by a finished push, by \<open>onStopAppSuccess\<close> or by
  a tick of the timer leaves no timer running, and none runs after \<open>stopMedia\<close>;
  \<open>playMedia\<close> from LOADED or PAUSED with a media session held, and a successful load
  with autoplay, end in PLAYING with the timer running. Nothing is said of
  \<open>seekMedia\<close>, \<open>onSeekSuccess\<close> and the other transitions.
\<close>

theorem timer_discipline:
  "let w = run evs (CastPlayer pg) in
     intervals w \<subseteq> set_option (timer w)
     \<and> (castPlayerState w = PLAYING \<longrightarrow>
          castPlayerState (step Click_pause w) = PAUSED
          \<and> \<not> timer_running (step Click_pause w))
     \<and> \<not> timer_running (step Call_stopMedia w)
     \<and> castPlayerState
          (step (Cb_onMediaStatusUpdate (Status (Some ''FINISHED'') (Some ''IDLE'') c)) w)
          = STOPPED
     \<and> \<not> timer_running
          (step (Cb_onMediaStatusUpdate (Status (Some ''FINISHED'') (Some ''IDLE'') c)) w)
     \<and> castPlayerState (step Cb_onStopAppSuccess w) = IDLE
     \<and> \<not> timer_running (step Cb_onStopAppSuccess w)
     \<and> (castPlayerState w = PLAYING \<and> castPlayerState (step (Interval i) w) \<noteq> PLAYING
          \<longrightarrow> \<not> timer_running (step (Interval i) w))
     \<and> ((castPlayerState w = LOADED \<or> castPlayerState w = PAUSED)
          \<and> currentMediaSession w \<noteq> None
          \<longrightarrow> castPlayerState (step Click_play w) = PLAYING
              \<and> timer_running (step Click_play w))
     \<and> (autoplay w
          \<longrightarrow> castPlayerState (step (Cb_onMediaDiscovered m) w) = PLAYING
              \<and> timer_running (step (Cb_onMediaDiscovered m) w))"
proof -
  define w where "w = run evs (CastPlayer pg)"
  have inv: "timer_inv w"
    unfolding w_def by (rule inv_reachable)
  have held: "intervals w \<subseteq> set_option (timer w)"
    using inv by (simp add: timer_inv_def)
  show ?thesis
    unfolding Let_def w_def [symmetric]
    using held pause_clears [OF inv] stop_clears [OF inv] finished_clears [OF inv]
      stop_session_clears [OF inv] tick_clears [OF inv] play_starts [of w]
      load_success_starts [of w]
    by blast
qed

theorem timer_discipline_witness:
  "castPlayerState (run cast_started (CastPlayer page_ready)) = PLAYING
   \<and> castPlayerState (step Click_pause (run cast_started (CastPlayer page_ready))) = PAUSED
   \<and> \<not> timer_running (step Click_pause (run cast_started (CastPlayer page_ready)))
   \<and> castPlayerState (run cast_started_short (CastPlayer page_ready)) = PLAYING
   \<and> castPlayerState (step (Interval 1) (run cast_started_short (CastPlayer page_ready)))
       \<noteq> PLAYING
   \<and> \<not> timer_running (step (Interval 1) (run cast_started_short (CastPlayer page_ready)))
   \<and> castPlayerState (run (cast_started @ [Click_pause]) (CastPlayer page_ready)) = PAUSED
   \<and> currentMediaSession (run (cast_started @ [Click_pause]) (CastPlayer page_ready)) \<noteq> None
   \<and> castPlayerState
       (step Click_play (run (cast_started @ [Click_pause]) (CastPlayer page_ready))) = PLAYING
   \<and> timer_running
       (step Click_play (run (cast_started @ [Click_pause]) (CastPlayer page_ready)))
   \<and> autoplay (CastPlayer page_ready)
   \<and> timer_running (step (Cb_onMediaDiscovered media120) (run [] (CastPlayer page_ready)))"
proof -
  have a: "castPlayerState (run cast_started (CastPlayer page_ready)) = PLAYING"
    by (simp add: started_world)
  have b: "castPlayerState (run cast_started_short (CastPlayer page_ready)) = PLAYING"
    by (simp add: started_short_world)
  have b': "castPlayerState (step (Interval 1) (run cast_started_short (CastPlayer page_ready)))
              \<noteq> PLAYING"
    by (simp add: started_short_world)
       (simp add: incrementMediaTime_def updateProgressBarByTimer_def clearInterval_def
          PROGRESS_BAR_WIDTH_def Let_def)
  have c: "castPlayerState (run (cast_started @ [Click_pause]) (CastPlayer page_ready)) = PAUSED"
    "currentMediaSession (run (cast_started @ [Click_pause]) (CastPlayer page_ready)) \<noteq> None"
    by (simp_all add: run_append started_world)
       (simp_all add: pauseMedia_def clearInterval_def sdk_def Let_def)
  have d: "autoplay (run [] (CastPlayer page_ready))"
    by (simp add: ready_world)
  show ?thesis
    using a b b' c d
      timer_discipline [of cast_started page_ready None 1 media120]
      timer_discipline [of cast_started_short page_ready None 1 media120]
      timer_discipline [of "cast_started @ [Click_pause]" page_ready None 1 media120]
      timer_discipline [of "[]" page_ready None 1 media120]
    by (simp add: Let_def)
qed

text \<open>
  Casting has started and the player is PLAYING with interval 1 live. A click on the bar
  leaves PLAYING for SEEKING and the interval stays live. If the user pauses first, the
  seek and its success callback end in PLAYING with no interval live.
\<close>

theorem timer_discipline_counterexample:
  "castPlayerState (run cast_started (CastPlayer page_ready)) = PLAYING
   \<and> castPlayerState (run (cast_started @ [Seek (bar_click 300)]) (CastPlayer page_ready))
       = SEEKING
   \<and> intervals (run (cast_started @ [Seek (bar_click 300)]) (CastPlayer page_ready)) = {1}
   \<and> castPlayerState
       (run (cast_started @ [Click_pause, Seek (bar_click 300), Cb_onSeekSuccess])
          (CastPlayer page_ready)) = PLAYING
   \<and> intervals
       (run (cast_started @ [Click_pause, Seek (bar_click 300), Cb_onSeekSuccess])
          (CastPlayer page_ready)) = {}"
  by (simp add: run_append started_world)
     (simp add: bar_click_def seekMedia_def pauseMedia_def onSeekSuccess_def sdk_def
        clearInterval_def parseInt_def PROGRESS_BAR_WIDTH_def Let_def)

end
